theory Spec2Isabelle
  imports Complex_Main
begin

section \<open>RT-SLAM robotAbstract.hpp: the Control class and the abstract robot\<close>

text \<open>
  A shallow embedding of \<^verbatim>\<open>include/rtslam/robotAbstract.hpp\<close>. The scalar type
  \<^verbatim>\<open>double\<close> is a type parameter \<open>'a\<close>. The conversions of \<^verbatim>\<open>Control\<close> only
  multiply scalars and are written over any multiplication, rounded or not; the matrix
  products of the prediction step are written over a semiring, where the arithmetic is
  exact and rounding is not modelled; positive semi-definiteness is a property of the
  real numbers that the scalars of a covariance stand for. A C++ member
  function that mutates its object and may throw becomes a function from the object to a
  pair: the exception raised, if any, and the object as the call leaves it (what was
  assigned before the throw stays assigned).
\<close>

subsection \<open>Errors and assertions\<close>

datatype error = SizeMismatch | UninitializedContinuousState | MotionModelFailure

text \<open>
  Modelled from the spec: the macro \<^verbatim>\<open>JFR_ASSERT(predicate, message)\<close> of the jafar kernel
  is not part of this header. The spec has a failed assertion abort the call with an
  error of its taxonomy; each call site below gives the error the spec names for it
  (the size checks \<open>SizeMismatch\<close>, the two "not yet initialized" checks
  \<open>UninitializedContinuousState\<close>).
\<close>

definition JFR_ASSERT :: "bool \<Rightarrow> error \<Rightarrow> error option" where
  "JFR_ASSERT b e = (if b then None else Some e)"

text \<open>Sequencing of two steps on the same object: a throw ends the call.\<close>

definition seq :: "error option \<times> 's \<Rightarrow> ('s \<Rightarrow> error option \<times> 's) \<Rightarrow> error option \<times> 's" where
  "seq r k = (case r of (Some e, s) \<Rightarrow> (Some e, s) | (None, s) \<Rightarrow> k s)"

subsection \<open>Vectors and matrices (jblas)\<close>

text \<open>
  \<^verbatim>\<open>jblas::vec\<close> is a list of scalars, its \<^verbatim>\<open>size()\<close> the length of the list.
  \<^verbatim>\<open>jblas::mat\<close> and \<^verbatim>\<open>jblas::sym_mat\<close> carry their two dimensions and the entries row
  by row; a default-constructed matrix has size 0. A \<^verbatim>\<open>sym_mat\<close> is the same record,
  with equal dimensions and symmetric entries.
\<close>

record 'a mat =
  size1 :: nat
  size2 :: nat
  data :: "'a list list"

definition mk_mat :: "nat \<Rightarrow> nat \<Rightarrow> (nat \<Rightarrow> nat \<Rightarrow> 'a) \<Rightarrow> 'a mat" where
  "mk_mat n m f = \<lparr>size1 = n, size2 = m, data = map (\<lambda>i. map (f i) [0..<m]) [0..<n]\<rparr>"

definition entry :: "'a mat \<Rightarrow> nat \<Rightarrow> nat \<Rightarrow> 'a" where
  "entry A i j = data A ! i ! j"

definition wf_mat :: "'a mat \<Rightarrow> bool" where
  "wf_mat A = (length (data A) = size1 A \<and> list_all (\<lambda>row. length row = size2 A) (data A))"

definition empty_mat :: "'a mat" where
  "empty_mat = \<lparr>size1 = 0, size2 = 0, data = []\<rparr>"

text \<open>\<^verbatim>\<open>v * _dt\<close> and \<^verbatim>\<open>M * _dt\<close>: every entry times the scalar, the scalar on the right.\<close>

definition vec_scale :: "'a::times list \<Rightarrow> 'a \<Rightarrow> 'a list" where
  "vec_scale v t = map (\<lambda>a. a * t) v"

definition mat_scale :: "'a::times mat \<Rightarrow> 'a \<Rightarrow> 'a mat" where
  "mat_scale A t = A\<lparr>data := map (map (\<lambda>a. a * t)) (data A)\<rparr>"

text \<open>
  The values of a matrix of scalars, read through a function \<open>f\<close>; with \<open>f\<close> the real
  number a \<^verbatim>\<open>double\<close> stands for, this is the matrix of real numbers that a covariance
  of the program denotes.
\<close>

definition mat_image :: "('a \<Rightarrow> 'b) \<Rightarrow> 'a mat \<Rightarrow> 'b mat" where
  "mat_image f A = \<lparr>size1 = size1 A, size2 = size2 A, data = map (map f) (data A)\<rparr>"

definition mat_trans :: "'a mat \<Rightarrow> 'a mat" where
  "mat_trans A = mk_mat (size2 A) (size1 A) (\<lambda>i j. entry A j i)"

definition mat_prod :: "'a::semiring_0 mat \<Rightarrow> 'a mat \<Rightarrow> 'a mat" where
  "mat_prod A B = mk_mat (size1 A) (size2 B) (\<lambda>i j. \<Sum>k\<leftarrow>[0..<size2 A]. entry A i k * entry B k j)"

definition mat_add :: "'a::plus mat \<Rightarrow> 'a mat \<Rightarrow> 'a mat" where
  "mat_add A B = mk_mat (size1 A) (size2 A) (\<lambda>i j. entry A i j + entry B i j)"

definition symmetric :: "'a mat \<Rightarrow> bool" where
  "symmetric A = (size1 A = size2 A \<and>
     list_all (\<lambda>i. list_all (\<lambda>j. entry A i j = entry A j i) [0..<size1 A]) [0..<size1 A])"

text \<open>The quadratic form \<open>v\<^sup>T A v\<close> and positive semi-definiteness over the reals.\<close>

definition quad_form :: "'a::semiring_0 mat \<Rightarrow> 'a list \<Rightarrow> 'a" where
  "quad_form A v = (\<Sum>i\<leftarrow>[0..<size1 A]. \<Sum>j\<leftarrow>[0..<size2 A]. v ! i * entry A i j * v ! j)"

definition psd :: "real mat \<Rightarrow> bool" where
  "psd A = (\<forall>v. length v = size1 A \<longrightarrow> 0 \<le> quad_form A v)"

subsection \<open>Gaussian\<close>

text \<open>
  Modelled from the spec: the class \<^verbatim>\<open>Gaussian\<close> (rtslam/gaussian.hpp) is not part of
  this header. The spec gives it a mean vector of size n and a symmetric n x n
  covariance; \<^verbatim>\<open>size()\<close> is that n. Its setters \<^verbatim>\<open>x(v)\<close> and \<^verbatim>\<open>P(M)\<close> are operations
  receiving a vector or a matrix, which by the spec's error taxonomy fail with
  \<open>SizeMismatch\<close> when the dimension disagrees with the expected size. The constructor
  from a size gives a Gaussian of that size; its entries are taken as zero.
\<close>

record 'a Gaussian =
  mean :: "'a list"
  covariance :: "'a mat"

text \<open>Modelled from the spec: \<^verbatim>\<open>Gaussian::size()\<close>, the common dimension n.\<close>

definition Gaussian_size :: "('a, 'b) Gaussian_scheme \<Rightarrow> nat" where
  "Gaussian_size g = length (mean g)"

text \<open>
  Modelled from the spec: the setter \<^verbatim>\<open>Gaussian::x(v)\<close> of the mean, which fails with
  \<open>SizeMismatch\<close> on a vector of another size.
\<close>

definition Gaussian_x :: "'a list \<Rightarrow> ('a, 'b) Gaussian_scheme \<Rightarrow> error option \<times> ('a, 'b) Gaussian_scheme" where
  "Gaussian_x v g = seq (JFR_ASSERT (length v = Gaussian_size g) SizeMismatch, g) (\<lambda>g. (None, g\<lparr>mean := v\<rparr>))"

text \<open>
  Modelled from the spec: the setter \<^verbatim>\<open>Gaussian::P(M)\<close> of the covariance, which fails
  with \<open>SizeMismatch\<close> on a matrix of another size.
\<close>

definition Gaussian_P :: "'a mat \<Rightarrow> ('a, 'b) Gaussian_scheme \<Rightarrow> error option \<times> ('a, 'b) Gaussian_scheme" where
  "Gaussian_P M g = seq (JFR_ASSERT (size1 M = Gaussian_size g) SizeMismatch, g) (\<lambda>g. (None, g\<lparr>covariance := M\<rparr>))"

text \<open>
  Modelled from the spec: the constructor \<^verbatim>\<open>Gaussian(_size)\<close>, a Gaussian of that size
  with zero entries.
\<close>

definition Gaussian_of_size :: "nat \<Rightarrow> 'a::zero Gaussian" where
  "Gaussian_of_size n = \<lparr>mean = replicate n 0, covariance = mk_mat n n (\<lambda>i j. 0)\<rparr>"

subsection \<open>Control\<close>

text \<open>
  \<^verbatim>\<open>class Control: public Gaussian\<close> with the private continuous-time members
  \<^verbatim>\<open>x_ct\<close>, \<^verbatim>\<open>P_ct\<close> (default-constructed, so of size 0, until stored) and the public
  \<^verbatim>\<open>dt\<close>. The three constructors set \<^verbatim>\<open>dt\<close> to 1.0, 1.0 and the argument.
\<close>

record 'a Control = "'a Gaussian" +
  x_ct :: "'a list"
  P_ct :: "'a mat"
  dt :: 'a

definition Control_of_Gaussian_dt :: "'a Gaussian \<Rightarrow> 'a \<Rightarrow> 'a Control" where
  "Control_of_Gaussian_dt g t =
     \<lparr>mean = mean g, covariance = covariance g, x_ct = [], P_ct = empty_mat, dt = t\<rparr>"

definition Control_of_Gaussian :: "'a::one Gaussian \<Rightarrow> 'a Control" where
  "Control_of_Gaussian g =
     \<lparr>mean = mean g, covariance = covariance g, x_ct = [], P_ct = empty_mat, dt = 1\<rparr>"

definition Control_of_size :: "nat \<Rightarrow> 'a::{zero,one} Control" where
  "Control_of_size n = Control_of_Gaussian (Gaussian_of_size n)"

definition set_P_continuous :: "'a mat \<Rightarrow> 'a Control \<Rightarrow> error option \<times> 'a Control" where
  "set_P_continuous M c =
     seq (JFR_ASSERT (size1 M = Gaussian_size c) SizeMismatch, c) (\<lambda>c.
     (None, c\<lparr>P_ct := M\<rparr>))"

definition set_x_continuous :: "'a list \<Rightarrow> 'a Control \<Rightarrow> error option \<times> 'a Control" where
  "set_x_continuous v c =
     seq (JFR_ASSERT (length v = Gaussian_size c) SizeMismatch, c) (\<lambda>c.
     (None, c\<lparr>x_ct := v\<rparr>))"

text \<open>\<^verbatim>\<open>convert_P_from_continuous(double _dt)\<close>\<close>

definition convert_P_from_continuous :: "'a::times \<Rightarrow> 'a Control \<Rightarrow> error option \<times> 'a Control" where
  "convert_P_from_continuous t c =
     seq (JFR_ASSERT (size1 (P_ct c) = Gaussian_size c) UninitializedContinuousState, c) (\<lambda>c.
     Gaussian_P (mat_scale (P_ct c) t) c)"

text \<open>\<^verbatim>\<open>convert_P_from_continuous(sym_mat & _P_ct, double _dt)\<close>\<close>

definition convert_P_from_continuous_mat :: "'a::times mat \<Rightarrow> 'a \<Rightarrow> 'a Control \<Rightarrow> error option \<times> 'a Control" where
  "convert_P_from_continuous_mat M t c =
     seq (JFR_ASSERT (size1 M = Gaussian_size c) SizeMismatch, c) (\<lambda>c.
     seq (set_P_continuous M c) (\<lambda>c.
     Gaussian_P (mat_scale (P_ct c) t) c))"

text \<open>\<^verbatim>\<open>convert_from_continuous(double _dt)\<close>: the only assertion is on \<^verbatim>\<open>x_ct\<close>.\<close>

definition convert_from_continuous :: "'a::times \<Rightarrow> 'a Control \<Rightarrow> error option \<times> 'a Control" where
  "convert_from_continuous t c =
     seq (JFR_ASSERT (length (x_ct c) = Gaussian_size c) UninitializedContinuousState, c) (\<lambda>c.
     seq (Gaussian_x (vec_scale (x_ct c) t) c) (\<lambda>c.
     seq (Gaussian_P (mat_scale (P_ct c) t) c) (\<lambda>c.
     (None, c\<lparr>dt := t\<rparr>))))"

text \<open>\<^verbatim>\<open>convert_from_continuous(Gaussian & Ct, double _dt)\<close>\<close>

definition convert_from_continuous_Gaussian :: "'a::times Gaussian \<Rightarrow> 'a \<Rightarrow> 'a Control \<Rightarrow> error option \<times> 'a Control" where
  "convert_from_continuous_Gaussian Ct t c =
     seq (JFR_ASSERT (Gaussian_size Ct = Gaussian_size c) SizeMismatch, c) (\<lambda>c.
     seq (set_P_continuous (covariance Ct) c) (\<lambda>c.
     seq (set_x_continuous (mean Ct) c) (\<lambda>c.
     convert_from_continuous t c)))"

subsection \<open>The shared map\<close>

text \<open>
  Modelled from the spec: the classes \<^verbatim>\<open>MapAbstract\<close> and \<^verbatim>\<open>MapObject\<close>
  (rtslam/mapAbstract.hpp, rtslam/mapObject.hpp) are not part of this header. The spec has
  the map own one mean vector and one symmetric covariance matrix over all tracked
  states; the robot and every other tracked object hold a slice (an offset and a length)
  into them, and a covariance block is the sub-matrix addressed by two slices.
\<close>

record slice =
  slice_off :: nat
  slice_len :: nat

record 'a MapAbstract =
  map_mean :: "'a list"
  map_covariance :: "'a mat"
  objects :: "slice list"

text \<open>Modelled from the spec: the positions of the map that a slice covers.\<close>

definition in_slice :: "slice \<Rightarrow> nat \<Rightarrow> bool" where
  "in_slice s i = (slice_off s \<le> i \<and> i < slice_off s + slice_len s)"

text \<open>Modelled from the spec: two slices that share no position of the map.\<close>

definition disjoint :: "slice \<Rightarrow> slice \<Rightarrow> bool" where
  "disjoint s1 s2 =
     (slice_off s1 + slice_len s1 \<le> slice_off s2 \<or> slice_off s2 + slice_len s2 \<le> slice_off s1)"

text \<open>
  Modelled from the spec: reading the mean of a slice, as \<^verbatim>\<open>state.x()\<close> does for the
  robot.
\<close>

definition read_slice :: "slice \<Rightarrow> 'a list \<Rightarrow> 'a list" where
  "read_slice s xs = take (slice_len s) (drop (slice_off s) xs)"

text \<open>
  Modelled from the spec: writing a vector into a slice of the map's mean, which touches
  the positions of the slice only.
\<close>

definition write_slice :: "slice \<Rightarrow> 'a list \<Rightarrow> 'a list \<Rightarrow> 'a list" where
  "write_slice s v xs =
     map (\<lambda>i. if in_slice s i \<and> i - slice_off s < length v then v ! (i - slice_off s) else xs ! i)
       [0..<length xs]"

text \<open>Modelled from the spec: the covariance block addressed by two slices.\<close>

definition block :: "'a mat \<Rightarrow> slice \<Rightarrow> slice \<Rightarrow> 'a mat" where
  "block A s1 s2 =
     mk_mat (slice_len s1) (slice_len s2) (\<lambda>i j. entry A (slice_off s1 + i) (slice_off s2 + j))"

text \<open>
  Modelled from the spec: overwriting the sub-matrix of the covariance that starts at row
  \<open>i0\<close> and column \<open>j0\<close> with the matrix \<open>B\<close>; the other entries stay.
\<close>

definition set_block :: "'a mat \<Rightarrow> nat \<Rightarrow> nat \<Rightarrow> 'a mat \<Rightarrow> 'a mat" where
  "set_block A i0 j0 B =
     mk_mat (size1 A) (size2 A)
       (\<lambda>i j. if i0 \<le> i \<and> i < i0 + size1 B \<and> j0 \<le> j \<and> j < j0 + size2 B
              then entry B (i - i0) (j - j0) else entry A i j)"

subsection \<open>RobotAbstract\<close>

text \<open>
  The members of \<^verbatim>\<open>class RobotAbstract\<close> that its operations read or write. The
  member \<^verbatim>\<open>state\<close>, inherited from \<^verbatim>\<open>MapObject\<close>, is the robot's slice of the map;
  the map itself (\<^verbatim>\<open>slamMap\<close>) is passed next to the robot.
\<close>

record 'a RobotAbstract =
  constantPerturbation :: bool
  state :: slice
  control :: "'a Control"
  XNEW_x :: "'a mat"
  XNEW_control :: "'a mat"
  Q :: "'a mat"

definition set_control :: "'a Control \<Rightarrow> 'a RobotAbstract \<Rightarrow> 'a RobotAbstract" where
  "set_control c r = r\<lparr>control := c\<rparr>"

subsection \<open>The motion model and its call\<close>

text \<open>
  \<^verbatim>\<open>virtual void move_func(const vec & _x, const vec & _u, const double _dt, vec & _xnew,
  mat & _XNEW_x, mat & _XNEW_u) = 0\<close> takes its vectors and matrices by reference.
  The objects the references can point to are kept in a frame: the vectors in a list,
  a vector reference being an index into it, and the two Jacobians. A motion model is any
  function of the three vector references, the time step and the frame, to the exception
  it raises, if any, and the frame it leaves.
\<close>

record 'a frame =
  vecs :: "'a list list"
  arg_XNEW_x :: "'a mat"
  arg_XNEW_u :: "'a mat"

type_synonym 'a motion_model =
  "nat \<Rightarrow> nat \<Rightarrow> 'a \<Rightarrow> nat \<Rightarrow> 'a frame \<Rightarrow> error option \<times> 'a frame"

text \<open>
  The inline \<^verbatim>\<open>move_func()\<close>:
  \<^verbatim>\<open>vec x = state.x(); vec u = control.x(); move_func(x, u, control.dt, x, XNEW_x, XNEW_control);\<close>
  The local \<^verbatim>\<open>x\<close> is vector 0 of the frame and \<^verbatim>\<open>u\<close> vector 1; \<^verbatim>\<open>x\<close> is passed
  both as \<^verbatim>\<open>_x\<close> and as \<^verbatim>\<open>_xnew\<close>. \<open>move_func_call\<close> is the call with its frame,
  \<open>move_func\<close> the member function, which returns nothing and drops the locals.
\<close>

definition move_func_call :: "'a motion_model \<Rightarrow> 'a MapAbstract \<Rightarrow> 'a RobotAbstract \<Rightarrow> error option \<times> 'a frame" where
  "move_func_call mf w r =
     mf 0 1 (dt (control r)) 0
        \<lparr>vecs = [read_slice (state r) (map_mean w), mean (control r)],
         arg_XNEW_x = XNEW_x r, arg_XNEW_u = XNEW_control r\<rparr>"

definition move_func :: "'a motion_model \<Rightarrow> 'a MapAbstract \<Rightarrow> 'a RobotAbstract \<Rightarrow> error option \<times> 'a RobotAbstract" where
  "move_func mf w r =
     (case move_func_call mf w r of
        (e, fr) \<Rightarrow> (e, r\<lparr>XNEW_x := arg_XNEW_x fr, XNEW_control := arg_XNEW_u fr\<rparr>))"

subsection \<open>The prediction step\<close>

text \<open>
  Modelled from the spec: \<^verbatim>\<open>computeStatePerturbation()\<close> is declared in this header and
  defined elsewhere. The spec: \<open>Q := XNEW_control * control.covariance * XNEW_control\<^sup>T\<close>.
\<close>

definition computeStatePerturbation :: "'a::semiring_0 RobotAbstract \<Rightarrow> 'a RobotAbstract" where
  "computeStatePerturbation r =
     r\<lparr>Q := mat_prod (mat_prod (XNEW_control r) (covariance (control r))) (mat_trans (XNEW_control r))\<rparr>"

text \<open>
  Modelled from the spec: the covariance propagation of the map's filter, step 4 of
  \<^verbatim>\<open>move()\<close>, is not part of this header. The robot's own block becomes
  \<open>XNEW_x * P_rr * XNEW_x\<^sup>T + Q\<close>; then, object by object, the cross block \<open>P_ro\<close>
  becomes \<open>XNEW_x * P_ro\<close>, written together with its mirror image \<open>P_or\<close> since the
  covariance is one symmetric matrix.
\<close>

definition predict_own :: "'a::semiring_0 mat \<Rightarrow> 'a mat \<Rightarrow> slice \<Rightarrow> 'a mat \<Rightarrow> 'a mat" where
  "predict_own F Qm rs A =
     set_block A (slice_off rs) (slice_off rs)
       (mat_add (mat_prod (mat_prod F (block A rs rs)) (mat_trans F)) Qm)"

text \<open>
  Modelled from the spec: the update \<open>P_ro \<leftarrow> XNEW_x * P_ro\<close> of the cross block with
  one object, and of its mirror image.
\<close>

definition predict_cross :: "'a::semiring_0 mat \<Rightarrow> slice \<Rightarrow> slice \<Rightarrow> 'a mat \<Rightarrow> 'a mat" where
  "predict_cross F rs ob A =
     (let B = mat_prod F (block A rs ob)
      in set_block (set_block A (slice_off rs) (slice_off ob) B)
           (slice_off ob) (slice_off rs) (mat_trans B))"

text \<open>Modelled from the spec: the cross blocks with every tracked object, one by one.\<close>

fun predict_objects :: "'a::semiring_0 mat \<Rightarrow> slice \<Rightarrow> slice list \<Rightarrow> 'a mat \<Rightarrow> 'a mat" where
  "predict_objects F rs [] A = A"
| "predict_objects F rs (ob # obs) A = predict_objects F rs obs (predict_cross F rs ob A)"

text \<open>
  Modelled from the spec: the covariance propagation, the robot's own block first and
  the cross blocks after it.
\<close>

definition predict :: "'a::semiring_0 mat \<Rightarrow> 'a mat \<Rightarrow> slice \<Rightarrow> slice list \<Rightarrow> 'a mat \<Rightarrow> 'a mat" where
  "predict F Qm rs obs A = predict_objects F rs obs (predict_own F Qm rs A)"

text \<open>
  Modelled from the spec: \<^verbatim>\<open>move()\<close> is declared virtual in this header and defined
  elsewhere. The spec's four steps: evaluate the motion model at the current pose mean,
  control mean and \<^verbatim>\<open>dt\<close> (the call of the inline \<^verbatim>\<open>move_func()\<close> above; a failure of
  the motion model ends the step); unless \<^verbatim>\<open>constantPerturbation\<close>, refresh \<^verbatim>\<open>Q\<close>;
  commit the new pose mean, which is the vector the motion model left in \<^verbatim>\<open>_xnew\<close>;
  propagate the covariance.
\<close>

definition move :: "'a::semiring_0 motion_model \<Rightarrow> 'a MapAbstract \<Rightarrow> 'a RobotAbstract \<Rightarrow>
    error option \<times> 'a MapAbstract \<times> 'a RobotAbstract" where
  "move mf w r =
     (case move_func_call mf w r of
        (Some e, fr) \<Rightarrow> (Some e, w, r\<lparr>XNEW_x := arg_XNEW_x fr, XNEW_control := arg_XNEW_u fr\<rparr>)
      | (None, fr) \<Rightarrow>
          (let r1 = r\<lparr>XNEW_x := arg_XNEW_x fr, XNEW_control := arg_XNEW_u fr\<rparr>;
               r2 = (if constantPerturbation r1 then r1 else computeStatePerturbation r1);
               w1 = w\<lparr>map_mean := write_slice (state r2) (vecs fr ! 0) (map_mean w)\<rparr>;
               w2 = w1\<lparr>map_covariance :=
                      predict (XNEW_x r2) (Q r2) (state r2) (objects w1) (map_covariance w1)\<rparr>
           in (None, w2, r2)))"

text \<open>\<^verbatim>\<open>inline void move(const Control & _control)\<close>\<close>

definition move_Control :: "'a::semiring_0 motion_model \<Rightarrow> 'a Control \<Rightarrow> 'a MapAbstract \<Rightarrow> 'a RobotAbstract \<Rightarrow>
    error option \<times> 'a MapAbstract \<times> 'a RobotAbstract" where
  "move_Control mf c w r = move mf w (set_control c r)"

text \<open>\<^verbatim>\<open>template<class V> inline void move(V & _u)\<close>\<close>

definition move_u :: "'a::semiring_0 motion_model \<Rightarrow> 'a list \<Rightarrow> 'a MapAbstract \<Rightarrow> 'a RobotAbstract \<Rightarrow>
    error option \<times> 'a MapAbstract \<times> 'a RobotAbstract" where
  "move_u mf u w r =
     (case JFR_ASSERT (length u = Gaussian_size (control r)) SizeMismatch of
        Some e \<Rightarrow> (Some e, w, r)
      | None \<Rightarrow>
          (case Gaussian_x u (control r) of
             (Some e, c) \<Rightarrow> (Some e, w, r\<lparr>control := c\<rparr>)
           | (None, c) \<Rightarrow> move mf w (r\<lparr>control := c\<rparr>)))"

subsection \<open>Layout of the map, repeated steps, and two concrete motion models\<close>

text \<open>
  The layout the covariance propagation relies on: the covariance is square over the
  mean vector, the slices of the robot and of the objects lie inside it, no object
  overlaps the robot and no two objects overlap.
\<close>

fun pairwise_disjoint :: "slice list \<Rightarrow> bool" where
  "pairwise_disjoint [] = True"
| "pairwise_disjoint (s # ss) = (list_all (disjoint s) ss \<and> pairwise_disjoint ss)"

definition map_layout_ok :: "'a MapAbstract \<Rightarrow> slice \<Rightarrow> bool" where
  "map_layout_ok w rs =
     (size1 (map_covariance w) = length (map_mean w) \<and>
      size2 (map_covariance w) = length (map_mean w) \<and>
      slice_off rs + slice_len rs \<le> length (map_mean w) \<and>
      list_all (\<lambda>ob. slice_off ob + slice_len ob \<le> length (map_mean w) \<and> disjoint rs ob) (objects w) \<and>
      pairwise_disjoint (objects w))"

text \<open>A caller that steps the robot once per control of a list, whatever each step raises.\<close>

fun move_repeat :: "'a::semiring_0 motion_model \<Rightarrow> 'a Control list \<Rightarrow> 'a MapAbstract \<Rightarrow> 'a RobotAbstract \<Rightarrow>
    'a MapAbstract \<times> 'a RobotAbstract" where
  "move_repeat mf [] w r = (w, r)"
| "move_repeat mf (c # cs) w r =
     (case move_Control mf c w r of (e, w1, r1) \<Rightarrow> move_repeat mf cs w1 r1)"

text \<open>
  A one-dimensional odometry model, \<open>xnew = x + u * dt\<close> with Jacobians \<open>[[1]]\<close> and
  \<open>[[dt]]\<close>, and a two-dimensional position/velocity model that writes the new velocity
  \<open>v + a * dt\<close> first and the new position \<open>p + v * dt\<close> second, reading \<^verbatim>\<open>_x\<close> and
  writing \<^verbatim>\<open>_xnew\<close> component by component as a derived class would.
\<close>

definition odometry_move_func :: "'a::semiring_1 motion_model" where
  "odometry_move_func rx ru t rxnew fr =
     (None, fr\<lparr>vecs := (vecs fr)[rxnew := [vecs fr ! rx ! 0 + vecs fr ! ru ! 0 * t]],
               arg_XNEW_x := mk_mat 1 1 (\<lambda>i j. 1),
               arg_XNEW_u := mk_mat 1 1 (\<lambda>i j. t)\<rparr>)"

definition velocity_move_func :: "'a::semiring_1 motion_model" where
  "velocity_move_func rx ru t rxnew fr =
     (let vs1 = (vecs fr)[rxnew := (vecs fr ! rxnew)[1 := vecs fr ! rx ! 1 + vecs fr ! ru ! 0 * t]];
          vs2 = vs1[rxnew := (vs1 ! rxnew)[0 := vs1 ! rx ! 0 + vs1 ! rx ! 1 * t]]
      in (None, fr\<lparr>vecs := vs2,
                   arg_XNEW_x := mk_mat 2 2 (\<lambda>i j. if i = j then 1 else if i < j then t else 0),
                   arg_XNEW_u := mk_mat 2 1 (\<lambda>i j. if i = 1 then t else 0)\<rparr>))"

text \<open>
  The spec's end-to-end scenario, with one landmark added: a robot state \<open>[0]\<close> with
  variance 0.01, a landmark \<open>[5]\<close> with variance 0.04 and cross-covariance 0.005, the
  control \<open>[1]\<close> with variance 0.02 and \<open>dt = 1\<close>.
\<close>

definition scenario_map :: "real MapAbstract" where
  "scenario_map =
     \<lparr>map_mean = [0, 5],
      map_covariance = \<lparr>size1 = 2, size2 = 2, data = [[1/100, 5/1000], [5/1000, 4/100]]\<rparr>,
      objects = [\<lparr>slice_off = 1, slice_len = 1\<rparr>]\<rparr>"

definition scenario_control :: "real Control" where
  "scenario_control =
     \<lparr>mean = [1], covariance = \<lparr>size1 = 1, size2 = 1, data = [[2/100]]\<rparr>,
      x_ct = [], P_ct = empty_mat, dt = 1\<rparr>"

definition scenario_robot :: "real RobotAbstract" where
  "scenario_robot =
     \<lparr>constantPerturbation = False, state = \<lparr>slice_off = 0, slice_len = 1\<rparr>,
      control = scenario_control,
      XNEW_x = \<lparr>size1 = 1, size2 = 1, data = [[0]]\<rparr>,
      XNEW_control = \<lparr>size1 = 1, size2 = 1, data = [[0]]\<rparr>,
      Q = \<lparr>size1 = 1, size2 = 1, data = [[0]]\<rparr>\<rparr>"

text \<open>
  Vectors with one nonzero entry 1, or with an entry 1 and an entry \<open>s\<close>, used to probe a
  quadratic form.
\<close>

definition unit_vec :: "nat \<Rightarrow> nat \<Rightarrow> real list" where
  "unit_vec n a = map (\<lambda>k. if k = a then 1 else 0) [0..<n]"

definition pair_vec :: "nat \<Rightarrow> nat \<Rightarrow> nat \<Rightarrow> real \<Rightarrow> real list" where
  "pair_vec n a b s = map (\<lambda>k. if k = a then 1 else if k = b then s else 0) [0..<n]"

text \<open>
  A robot with position and velocity at the first two places of the map and a landmark
  at the third, driven by an acceleration with variance 0.02.
\<close>

definition tracking_map :: "real MapAbstract" where
  "tracking_map =
     \<lparr>map_mean = [0, 1, 5],
      map_covariance = \<lparr>size1 = 3, size2 = 3,
        data = [[1/100, 0, 5/1000], [0, 4/100, 2/1000], [5/1000, 2/1000, 9/100]]\<rparr>,
      objects = [\<lparr>slice_off = 2, slice_len = 1\<rparr>]\<rparr>"

definition tracking_robot :: "real RobotAbstract" where
  "tracking_robot =
     \<lparr>constantPerturbation = False, state = \<lparr>slice_off = 0, slice_len = 2\<rparr>,
      control = scenario_control,
      XNEW_x = mk_mat 2 2 (\<lambda>i j. 0),
      XNEW_control = mk_mat 2 1 (\<lambda>i j. 0),
      Q = mk_mat 2 2 (\<lambda>i j. 0)\<rparr>"

text \<open>A motion model that cannot produce a result.\<close>

definition failing_move_func :: "'a motion_model" where
  "failing_move_func rx ru t rxnew fr = (Some MotionModelFailure, fr)"

section \<open>Basic facts\<close>

lemma seq_simps [simp]:
  "seq (None, s) k = k s"
  "seq (Some e, s) k = (Some e, s)"
  by (simp_all add: seq_def)

lemma JFR_ASSERT_simps [simp]:
  "JFR_ASSERT True e = None"
  "JFR_ASSERT False e = Some e"
  by (simp_all add: JFR_ASSERT_def)

lemma mk_mat_sizes [simp]:
  "size1 (mk_mat n m f) = n" "size2 (mk_mat n m f) = m"
  by (simp_all add: mk_mat_def)

lemma entry_mk_mat [simp]: "i < n \<Longrightarrow> j < m \<Longrightarrow> entry (mk_mat n m f) i j = f i j"
  by (simp add: mk_mat_def entry_def)

lemma mk_mat_cong:
  "(\<And>i j. i < n \<Longrightarrow> j < m \<Longrightarrow> f i j = g i j) \<Longrightarrow> mk_mat n m f = mk_mat n m g"
  by (simp add: mk_mat_def)

lemma mk_mat_entry: "mk_mat n m (entry (mk_mat n m f)) = mk_mat n m f"
  by (rule mk_mat_cong) simp

lemma mat_scale_sizes [simp]:
  "size1 (mat_scale A t) = size1 A" "size2 (mat_scale A t) = size2 A"
  by (simp_all add: mat_scale_def)

lemma entry_mat_scale:
  "wf_mat A \<Longrightarrow> i < size1 A \<Longrightarrow> j < size2 A \<Longrightarrow> entry (mat_scale A t) i j = entry A i j * t"
  by (simp add: wf_mat_def mat_scale_def entry_def list_all_iff)

lemma Gaussian_size_simps [simp]:
  "Gaussian_size (g\<lparr>covariance := M\<rparr>) = Gaussian_size g"
  "Gaussian_size (g\<lparr>mean := v\<rparr>) = length v"
  by (simp_all add: Gaussian_size_def)

lemma Control_size_simps [simp]:
  "Gaussian_size (c\<lparr>P_ct := M\<rparr>) = Gaussian_size c"
  "Gaussian_size (c\<lparr>x_ct := v\<rparr>) = Gaussian_size c"
  "Gaussian_size (c\<lparr>dt := t\<rparr>) = Gaussian_size c"
  by (simp_all add: Gaussian_size_def)

section \<open>Control: the conversions from continuous time\<close>

lemma set_P_continuous_eq:
  "set_P_continuous M c =
     (if size1 M = Gaussian_size c then (None, c\<lparr>P_ct := M\<rparr>) else (Some SizeMismatch, c))"
  by (simp add: set_P_continuous_def)

lemma set_x_continuous_eq:
  "set_x_continuous v c =
     (if length v = Gaussian_size c then (None, c\<lparr>x_ct := v\<rparr>) else (Some SizeMismatch, c))"
  by (simp add: set_x_continuous_def)

lemma convert_P_from_continuous_eq:
  "convert_P_from_continuous t c =
     (if size1 (P_ct c) = Gaussian_size c then (None, c\<lparr>covariance := mat_scale (P_ct c) t\<rparr>)
      else (Some UninitializedContinuousState, c))"
  by (simp add: convert_P_from_continuous_def Gaussian_P_def)

lemma convert_P_from_continuous_mat_eq:
  "convert_P_from_continuous_mat M t c =
     (if size1 M = Gaussian_size c then (None, c\<lparr>P_ct := M, covariance := mat_scale M t\<rparr>)
      else (Some SizeMismatch, c))"
  by (simp add: convert_P_from_continuous_mat_def set_P_continuous_def Gaussian_P_def)

lemma convert_from_continuous_eq:
  "convert_from_continuous t c =
     (if length (x_ct c) \<noteq> Gaussian_size c then (Some UninitializedContinuousState, c)
      else if size1 (P_ct c) \<noteq> Gaussian_size c
        then (Some SizeMismatch, c\<lparr>mean := vec_scale (x_ct c) t\<rparr>)
      else (None, c\<lparr>mean := vec_scale (x_ct c) t, covariance := mat_scale (P_ct c) t, dt := t\<rparr>))"
  by (simp add: convert_from_continuous_def Gaussian_P_def Gaussian_x_def vec_scale_def)

lemma convert_from_continuous_Gaussian_eq:
  "convert_from_continuous_Gaussian Ct t c =
     (if Gaussian_size Ct \<noteq> Gaussian_size c \<or> size1 (covariance Ct) \<noteq> Gaussian_size c
        then (Some SizeMismatch, c)
      else (None, c\<lparr>P_ct := covariance Ct, x_ct := mean Ct, mean := vec_scale (mean Ct) t,
                    covariance := mat_scale (covariance Ct) t, dt := t\<rparr>))"
proof (cases "Gaussian_size Ct = Gaussian_size c")
  case True
  then have "length (mean Ct) = Gaussian_size c" by (simp add: Gaussian_size_def)
  then show ?thesis
    by (simp add: convert_from_continuous_Gaussian_def set_P_continuous_eq set_x_continuous_eq
        convert_from_continuous_eq True)
next
  case False
  then show ?thesis by (simp add: convert_from_continuous_Gaussian_def)
qed

lemma stored_P_ct:
  assumes "set_P_continuous M c0 = (None, c)"
  shows "P_ct c = M" and "size1 M = Gaussian_size c"
  using assms by (auto simp add: set_P_continuous_eq split: if_splits)

text \<open>
  C5, as the code has it. \<^verbatim>\<open>convert_P_from_continuous(_dt)\<close> fails with
  \<open>UninitializedContinuousState\<close>, leaving the control as it was, exactly when the size of
  \<^verbatim>\<open>P_ct\<close> differs from the size of the control: so whenever no continuous covariance was
  stored and the control has a size other than 0. Otherwise, and so after every
  successful \<^verbatim>\<open>set_P_continuous\<close>, it sets the covariance to \<^verbatim>\<open>P_ct\<close> with every entry
  multiplied by \<^verbatim>\<open>_dt\<close>, for every \<^verbatim>\<open>_dt\<close>, and changes nothing else.
\<close>

theorem convert_P_from_continuous_spec:
  "(size1 (P_ct c) \<noteq> Gaussian_size c \<longrightarrow>
      convert_P_from_continuous t c = (Some UninitializedContinuousState, c)) \<and>
   (P_ct c = empty_mat \<and> Gaussian_size c \<noteq> 0 \<longrightarrow>
      convert_P_from_continuous t c = (Some UninitializedContinuousState, c)) \<and>
   (set_P_continuous M c0 = (None, c) \<longrightarrow>
      convert_P_from_continuous t c = (None, c\<lparr>covariance := mat_scale M t\<rparr>) \<and>
      size1 (mat_scale M t) = size1 M \<and> size2 (mat_scale M t) = size2 M \<and>
      (wf_mat M \<longrightarrow> (\<forall>i<size1 M. \<forall>j<size2 M. entry (mat_scale M t) i j = entry M i j * t)))"
proof (intro conjI impI)
  assume "size1 (P_ct c) \<noteq> Gaussian_size c"
  then show "convert_P_from_continuous t c = (Some UninitializedContinuousState, c)"
    by (simp add: convert_P_from_continuous_eq)
next
  assume "P_ct c = empty_mat \<and> Gaussian_size c \<noteq> 0"
  then show "convert_P_from_continuous t c = (Some UninitializedContinuousState, c)"
    by (simp add: convert_P_from_continuous_eq empty_mat_def)
next
  assume "set_P_continuous M c0 = (None, c)"
  then show "convert_P_from_continuous t c = (None, c\<lparr>covariance := mat_scale M t\<rparr>)"
    using stored_P_ct [of M c0 c] by (simp add: convert_P_from_continuous_eq)
next
  assume "wf_mat M"
  then show "\<forall>i<size1 M. \<forall>j<size2 M. entry (mat_scale M t) i j = entry M i j * t"
    by (simp add: entry_mat_scale)
qed simp_all

theorem convert_P_from_continuous_spec_witness:
  "convert_P_from_continuous (3::real) (Control_of_size 1) =
     (Some UninitializedContinuousState, Control_of_size 1) \<and>
   set_P_continuous \<lparr>size1 = 1, size2 = 1, data = [[2]]\<rparr> (Control_of_size 1) =
     (None, (Control_of_size 1)\<lparr>P_ct := \<lparr>size1 = 1, size2 = 1, data = [[2::real]]\<rparr>\<rparr>) \<and>
   convert_P_from_continuous 3 ((Control_of_size 1)\<lparr>P_ct := \<lparr>size1 = 1, size2 = 1, data = [[2::real]]\<rparr>\<rparr>) =
     (None, (Control_of_size 1)\<lparr>P_ct := \<lparr>size1 = 1, size2 = 1, data = [[2]]\<rparr>,
                                covariance := \<lparr>size1 = 1, size2 = 1, data = [[6]]\<rparr>\<rparr>)"
proof -
  let ?M = "\<lparr>size1 = 1, size2 = 1, data = [[2::real]]\<rparr>"
  let ?init = "Control_of_size 1 :: real Control"
  have unset: "P_ct ?init = empty_mat \<and> Gaussian_size ?init \<noteq> 0"
    by (simp add: Control_of_size_def Control_of_Gaussian_def Gaussian_of_size_def Gaussian_size_def)
  have stored: "set_P_continuous ?M ?init = (None, ?init\<lparr>P_ct := ?M\<rparr>)"
    by (simp add: set_P_continuous_eq Control_of_size_def Control_of_Gaussian_def
        Gaussian_of_size_def Gaussian_size_def)
  have scale: "mat_scale ?M 3 = \<lparr>size1 = 1, size2 = 1, data = [[6]]\<rparr>"
    by (simp add: mat_scale_def)
  show ?thesis
    using convert_P_from_continuous_spec [of ?init 3 ?M ?init]
      convert_P_from_continuous_spec [of "?init\<lparr>P_ct := ?M\<rparr>" 3 ?M ?init] unset stored scale
    by simp
qed

text \<open>
  C5, as the spec states it, fails on a control of size 0: nothing was stored, the
  size of the default-constructed \<^verbatim>\<open>P_ct\<close> is 0 too, and the call succeeds.
\<close>

theorem convert_P_from_continuous_size0_counterexample:
  "P_ct (Control_of_size 0 :: real Control) = empty_mat \<and>
   convert_P_from_continuous 2 (Control_of_size 0 :: real Control) = (None, Control_of_size 0)"
  by (simp add: convert_P_from_continuous_eq Control_of_size_def Control_of_Gaussian_def
      Gaussian_of_size_def Gaussian_size_def empty_mat_def mat_scale_def mk_mat_def)

text \<open>
  C3 at the input where the code leaves the claim: a control of size 1 with a continuous
  mean stored and no continuous covariance. \<^verbatim>\<open>convert_from_continuous(3)\<close> passes its only
  assertion, assigns the mean, and fails in the covariance setter with \<open>SizeMismatch\<close>.
\<close>

theorem convert_from_continuous_P_ct_unchecked:
  "set_x_continuous [2] (Control_of_size 1 :: real Control) =
     (None, (Control_of_size 1)\<lparr>x_ct := [2]\<rparr>) \<and>
   P_ct ((Control_of_size 1 :: real Control)\<lparr>x_ct := [2]\<rparr>) = empty_mat \<and>
   mean ((Control_of_size 1 :: real Control)\<lparr>x_ct := [2]\<rparr>) = [0] \<and>
   convert_from_continuous 3 ((Control_of_size 1 :: real Control)\<lparr>x_ct := [2]\<rparr>) =
     (Some SizeMismatch, (Control_of_size 1)\<lparr>x_ct := [2], mean := [6]\<rparr>)"
  by (simp add: convert_from_continuous_eq set_x_continuous_eq Control_of_size_def
      Control_of_Gaussian_def Gaussian_of_size_def Gaussian_size_def empty_mat_def vec_scale_def)


section \<open>Scaling a covariance by a negative time step\<close>

lemma mat_image_sizes [simp]:
  "size1 (mat_image f A) = size1 A" "size2 (mat_image f A) = size2 A"
  by (simp_all add: mat_image_def)

lemma entry_mat_image:
  "wf_mat A \<Longrightarrow> i < size1 A \<Longrightarrow> j < size2 A \<Longrightarrow> entry (mat_image f A) i j = f (entry A i j)"
  by (simp add: wf_mat_def mat_image_def entry_def list_all_iff)

lemma wf_mat_scale: "wf_mat A \<Longrightarrow> wf_mat (mat_scale A t)"
  by (simp add: wf_mat_def mat_scale_def list_all_iff)

lemma quad_form_sum:
  "quad_form A v = (\<Sum>i<size1 A. \<Sum>j<size2 A. v ! i * entry A i j * v ! j)"
  by (simp add: quad_form_def interv_sum_list_conv_sum_set_nat atLeast0LessThan)

lemma quad_unit:
  fixes A :: "real mat"
  assumes "size2 A = size1 A" "a < size1 A"
  shows "quad_form A (unit_vec (size1 A) a) = entry A a a"
proof -
  have "quad_form A (unit_vec (size1 A) a)
      = (\<Sum>i<size1 A. \<Sum>j<size1 A. (if i = a then 1 else 0) * entry A i j * (if j = a then 1 else 0))"
    by (simp add: quad_form_sum unit_vec_def assms)
  also have "\<dots> = (\<Sum>i<size1 A. (if i = a then entry A i a else 0))"
    using assms by (intro sum.cong refl) (simp add: if_distrib [of "\<lambda>x. _ * x"] sum.delta cong: if_cong)
  also have "\<dots> = entry A a a"
    using assms by (simp add: sum.delta)
  finally show ?thesis .
qed

lemma quad_pair:
  fixes A :: "real mat"
  assumes "size2 A = size1 A" "a < size1 A" "b < size1 A" "a \<noteq> b"
  shows "quad_form A (pair_vec (size1 A) a b s)
       = entry A a a + s * entry A a b + s * entry A b a + s * s * entry A b b"
proof -
  let ?d = "\<lambda>k::nat. (if k = a then 1 else 0) + (if k = b then s else 0)"
  have d: "(if k = a then 1 else if k = b then s else 0) = ?d k" for k
    using assms by auto
  have inner: "(\<Sum>j<size1 A. c j * ?d j) = c a + c b * s" for c :: "nat \<Rightarrow> real"
    using assms by (simp add: distrib_left sum.distrib if_distrib [of "\<lambda>x. _ * x"] sum.delta cong: if_cong)
  have "quad_form A (pair_vec (size1 A) a b s)
      = (\<Sum>i<size1 A. \<Sum>j<size1 A. ?d i * entry A i j * ?d j)"
    by (simp add: quad_form_sum pair_vec_def assms d del: One_nat_def)
  also have "\<dots> = (\<Sum>i<size1 A. (entry A i a + entry A i b * s) * ?d i)"
    by (intro sum.cong refl) (simp only: inner, simp add: algebra_simps)
  also have "\<dots> = entry A a a + entry A a b * s + (entry A b a + entry A b b * s) * s"
    by (simp only: inner)
  finally show ?thesis by (simp add: algebra_simps)
qed

lemma symmetricD: "symmetric A \<Longrightarrow> i < size1 A \<Longrightarrow> j < size1 A \<Longrightarrow> entry A i j = entry A j i"
  by (simp add: symmetric_def list_all_iff)

lemma psd_diag_nonneg:
  assumes "psd A" "size2 A = size1 A" "k < size1 A"
  shows "0 \<le> entry A k k"
proof -
  have "0 \<le> quad_form A (unit_vec (size1 A) k)"
    using assms(1) by (simp add: psd_def unit_vec_def)
  then show ?thesis using quad_unit [OF assms(2,3)] by simp
qed

text \<open>A positive semi-definite symmetric matrix with a nonzero entry has a positive diagonal entry.\<close>

lemma psd_nonzero_diag:
  assumes psd: "psd A" and sym: "symmetric A"
    and ab: "a < size1 A" "b < size1 A" "entry A a b \<noteq> 0"
  shows "\<exists>k<size1 A. 0 < entry A k k"
proof (rule ccontr)
  assume "\<not> ?thesis"
  then have le: "\<And>k. k < size1 A \<Longrightarrow> entry A k k \<le> 0" by (meson not_less)
  have sq: "size2 A = size1 A" using sym by (simp add: symmetric_def)
  have diag: "entry A k k = 0" if "k < size1 A" for k
    using le [OF that] psd_diag_nonneg [OF psd sq that] by simp
  show False
  proof (cases "a = b")
    case True
    then show False using diag ab by simp
  next
    case False
    have q: "0 \<le> quad_form A (pair_vec (size1 A) a b s)" for s
      using psd by (simp add: psd_def pair_vec_def)
    have ba: "entry A b a = entry A a b" using symmetricD [OF sym ab(2) ab(1)] .
    have "0 \<le> 2 * entry A a b"
      using q [of 1] quad_pair [OF sq ab(1) ab(2) False, of 1] diag ab ba by simp
    moreover have "0 \<le> - (2 * entry A a b)"
      using q [of "- 1"] quad_pair [OF sq ab(1) ab(2) False, of "- 1"] diag ab ba by simp
    ultimately show False using ab(3) by simp
  qed
qed

text \<open>
  If the product of every positive diagonal entry with \<open>t\<close> is a negative number, the
  scaled matrix has a negative diagonal entry and is not positive semi-definite.
\<close>

lemma not_psd_mat_scale:
  fixes M :: "'a::times mat" and val :: "'a \<Rightarrow> real"
  assumes wf: "wf_mat M" and sym: "symmetric (mat_image val M)" and psd: "psd (mat_image val M)"
    and ab: "a < size1 M" "b < size1 M" "val (entry M a b) \<noteq> 0"
    and neg: "\<forall>k<size1 M. 0 < val (entry M k k) \<longrightarrow> val (entry M k k * t) < 0"
  shows "\<not> psd (mat_image val (mat_scale M t))"
proof -
  let ?S = "mat_image val (mat_scale M t)"
  have sq: "size2 M = size1 M" using sym by (simp add: symmetric_def)
  have "entry (mat_image val M) a b \<noteq> 0"
    using wf ab sq by (simp add: entry_mat_image)
  then obtain k where k: "k < size1 M" "0 < entry (mat_image val M) k k"
    using psd_nonzero_diag [OF psd sym, of a b] ab by auto
  then have "0 < val (entry M k k)"
    using wf sq by (simp add: entry_mat_image)
  then have "val (entry M k k * t) < 0" using neg k(1) by blast
  moreover have "entry ?S k k = val (entry M k k * t)"
    using wf k(1) sq by (simp add: entry_mat_image wf_mat_scale entry_mat_scale)
  moreover have "quad_form ?S (unit_vec (size1 ?S) k) = entry ?S k k"
    using k(1) sq by (intro quad_unit) simp_all
  ultimately have "quad_form ?S (unit_vec (size1 ?S) k) < 0" by simp
  moreover have "length (unit_vec (size1 ?S) k) = size1 ?S" by (simp add: unit_vec_def)
  ultimately show ?thesis
    unfolding psd_def using not_le by blast
qed

text \<open>
  C10. Once a continuous covariance \<open>M\<close> is stored, \<^verbatim>\<open>convert_P_from_continuous(_dt)\<close>
  succeeds for every \<^verbatim>\<open>_dt\<close>, zero and negative ones included, and sets the covariance
  to \<open>M * _dt\<close> entry by entry, whatever the multiplication of the scalars is; the code
  has no check on \<^verbatim>\<open>_dt\<close>. Let \<open>val\<close> give the real number a scalar stands for. When
  \<open>M\<close> stands for a symmetric positive semi-definite matrix with a nonzero entry,
  \<^verbatim>\<open>_dt\<close> is negative, and the product of each positive diagonal entry with \<^verbatim>\<open>_dt\<close> is
  a negative number (as it is unless the product underflows to zero), the covariance the
  call leaves is not positive semi-definite.
\<close>

theorem convert_P_from_continuous_no_sign_check:
  fixes c :: "'a::times Control" and val :: "'a \<Rightarrow> real"
  assumes "set_P_continuous M c0 = (None, c)"
  shows "(\<forall>t. convert_P_from_continuous t c = (None, c\<lparr>covariance := mat_scale M t\<rparr>)) \<and>
         (wf_mat M \<and> symmetric (mat_image val M) \<and> psd (mat_image val M) \<and>
          a < size1 M \<and> b < size1 M \<and> val (entry M a b) \<noteq> 0 \<and> val t < 0 \<and>
          (\<forall>k<size1 M. 0 < val (entry M k k) \<longrightarrow> val (entry M k k * t) < 0) \<longrightarrow>
            \<not> psd (mat_image val (covariance (snd (convert_P_from_continuous t c)))))"
proof -
  have eq: "convert_P_from_continuous t c = (None, c\<lparr>covariance := mat_scale M t\<rparr>)" for t
    using stored_P_ct [OF assms] by (simp add: convert_P_from_continuous_eq)
  show ?thesis
    by (auto simp add: eq dest: not_psd_mat_scale [where val = val and t = t])
qed

theorem convert_P_from_continuous_no_sign_check_witness:
  "set_P_continuous \<lparr>size1 = 1, size2 = 1, data = [[2]]\<rparr> (Control_of_size 1) =
     (None, (Control_of_size 1)\<lparr>P_ct := \<lparr>size1 = 1, size2 = 1, data = [[2::real]]\<rparr>\<rparr>) \<and>
   psd (mat_image (\<lambda>x. x) \<lparr>size1 = 1, size2 = 1, data = [[2]]\<rparr>) \<and>
   (2::real) * (- 1) < 0 \<and>
   convert_P_from_continuous 0 ((Control_of_size 1)\<lparr>P_ct := \<lparr>size1 = 1, size2 = 1, data = [[2::real]]\<rparr>\<rparr>) =
     (None, (Control_of_size 1)\<lparr>P_ct := \<lparr>size1 = 1, size2 = 1, data = [[2]]\<rparr>,
                                covariance := \<lparr>size1 = 1, size2 = 1, data = [[0]]\<rparr>\<rparr>) \<and>
   convert_P_from_continuous (- 1) ((Control_of_size 1)\<lparr>P_ct := \<lparr>size1 = 1, size2 = 1, data = [[2::real]]\<rparr>\<rparr>) =
     (None, (Control_of_size 1)\<lparr>P_ct := \<lparr>size1 = 1, size2 = 1, data = [[2]]\<rparr>,
                                covariance := \<lparr>size1 = 1, size2 = 1, data = [[- 2]]\<rparr>\<rparr>) \<and>
   \<not> psd (mat_image (\<lambda>x. x) \<lparr>size1 = 1, size2 = 1, data = [[- 2]]\<rparr>)"
proof -
  let ?M = "\<lparr>size1 = 1, size2 = 1, data = [[2::real]]\<rparr>"
  let ?init = "Control_of_size 1 :: real Control"
  let ?c = "?init\<lparr>P_ct := ?M\<rparr>"
  let ?val = "\<lambda>x::real. x"
  have stored: "set_P_continuous ?M ?init = (None, ?c)"
    by (simp add: set_P_continuous_eq Control_of_size_def Control_of_Gaussian_def
        Gaussian_of_size_def Gaussian_size_def)
  have img: "mat_image ?val ?M = ?M" by (simp add: mat_image_def)
  have wf: "wf_mat ?M" and sym: "symmetric (mat_image ?val ?M)"
    and nz: "(0::nat) < size1 ?M" "?val (entry ?M 0 0) \<noteq> 0"
    unfolding img by (simp_all add: wf_mat_def symmetric_def entry_def)
  have psd: "psd (mat_image ?val ?M)"
    unfolding img by (simp add: psd_def quad_form_def entry_def)
  have prods: "\<forall>k<size1 ?M. 0 < ?val (entry ?M k k) \<longrightarrow> ?val (entry ?M k k * (- 1)) < 0"
    by (simp add: entry_def)
  have prods': "(2::real) * (- 1) < 0" by simp
  have scale: "mat_scale ?M 0 = \<lparr>size1 = 1, size2 = 1, data = [[0]]\<rparr>"
    "mat_scale ?M (- 1) = \<lparr>size1 = 1, size2 = 1, data = [[- 2]]\<rparr>"
    by (simp_all add: mat_scale_def)
  have neg: "?val (- 1) < 0" by simp
  note th = convert_P_from_continuous_no_sign_check [OF stored, of ?val 0 0 "- 1"]
  from th have all: "convert_P_from_continuous t ?c = (None, ?c\<lparr>covariance := mat_scale ?M t\<rparr>)" for t
    by blast
  from th wf sym psd nz neg prods
  have "\<not> psd (mat_image ?val (covariance (snd (convert_P_from_continuous (- 1) ?c))))"
    by blast
  then have npsd: "\<not> psd (mat_image ?val \<lparr>size1 = 1, size2 = 1, data = [[- 2]]\<rparr>)"
    unfolding all scale by simp
  have r0: "convert_P_from_continuous 0 ?c =
      (None, ?c\<lparr>covariance := \<lparr>size1 = 1, size2 = 1, data = [[0]]\<rparr>\<rparr>)"
    unfolding all scale ..
  have r1: "convert_P_from_continuous (- 1) ?c =
      (None, ?c\<lparr>covariance := \<lparr>size1 = 1, size2 = 1, data = [[- 2]]\<rparr>\<rparr>)"
    unfolding all scale ..
  from stored psd prods' r0 r1 npsd show ?thesis
    by (intro conjI)
qed

section \<open>Blocks of the map covariance under the prediction\<close>

lemma mat_op_sizes [simp]:
  "size1 (mat_trans A) = size2 A" "size2 (mat_trans A) = size1 A"
  "size1 (mat_prod A B) = size1 A" "size2 (mat_prod A B) = size2 B"
  "size1 (mat_add A B) = size1 A" "size2 (mat_add A B) = size2 A"
  "size1 (block A s1 s2) = slice_len s1" "size2 (block A s1 s2) = slice_len s2"
  "size1 (set_block A i0 j0 B) = size1 A" "size2 (set_block A i0 j0 B) = size2 A"
  by (simp_all add: mat_trans_def mat_prod_def mat_add_def block_def set_block_def)

lemma entry_set_block:
  "i < size1 A \<Longrightarrow> j < size2 A \<Longrightarrow>
   entry (set_block A i0 j0 B) i j =
     (if i0 \<le> i \<and> i < i0 + size1 B \<and> j0 \<le> j \<and> j < j0 + size2 B
      then entry B (i - i0) (j - j0) else entry A i j)"
  by (simp add: set_block_def)

lemma predict_cross_sizes [simp]:
  "size1 (predict_cross F rs ob A) = size1 A" "size2 (predict_cross F rs ob A) = size2 A"
  by (simp_all add: predict_cross_def Let_def)

lemma predict_objects_sizes [simp]:
  "size1 (predict_objects F rs obs A) = size1 A" "size2 (predict_objects F rs obs A) = size2 A"
  by (induction obs arbitrary: A) simp_all

lemma predict_own_sizes [simp]:
  "size1 (predict_own F Qm rs A) = size1 A" "size2 (predict_own F Qm rs A) = size2 A"
  by (simp_all add: predict_own_def)

lemma entry_predict_cross_other:
  assumes "i < size1 A" "j < size2 A" "size1 F = slice_len rs"
    and "\<not> (in_slice rs i \<and> in_slice ob j)" "\<not> (in_slice ob i \<and> in_slice rs j)"
  shows "entry (predict_cross F rs ob A) i j = entry A i j"
  using assms by (auto simp add: predict_cross_def Let_def entry_set_block in_slice_def)

lemma entry_predict_cross_hit:
  assumes "slice_off rs + slice_len rs \<le> size1 A" "slice_off ob + slice_len ob \<le> size2 A"
    and "size1 F = slice_len rs" "disjoint rs ob" "i < slice_len rs" "j < slice_len ob"
  shows "entry (predict_cross F rs ob A) (slice_off rs + i) (slice_off ob + j)
       = entry (mat_prod F (block A rs ob)) i j"
  using assms by (auto simp add: predict_cross_def Let_def entry_set_block disjoint_def)

lemma entry_predict_objects_other:
  assumes "i < size1 A" "j < size2 A" "size1 F = slice_len rs"
    and "\<forall>ob\<in>set obs. \<not> (in_slice rs i \<and> in_slice ob j) \<and> \<not> (in_slice ob i \<and> in_slice rs j)"
  shows "entry (predict_objects F rs obs A) i j = entry A i j"
  using assms
proof (induction obs arbitrary: A)
  case Nil
  then show ?case by simp
next
  case (Cons ob obs)
  have "entry (predict_objects F rs obs (predict_cross F rs ob A)) i j
      = entry (predict_cross F rs ob A) i j"
    using Cons.prems by (intro Cons.IH) simp_all
  also have "\<dots> = entry A i j"
    using Cons.prems by (intro entry_predict_cross_other) simp_all
  finally show ?case by simp
qed

lemma disjoint_not_both: "disjoint s1 s2 \<Longrightarrow> in_slice s1 i \<Longrightarrow> \<not> in_slice s2 i"
  by (auto simp: disjoint_def in_slice_def)

lemma disjoint_sym: "disjoint s1 s2 \<Longrightarrow> disjoint s2 s1"
  by (auto simp: disjoint_def)

lemma in_slice_add: "i < slice_len s \<Longrightarrow> in_slice s (slice_off s + i)"
  by (simp add: in_slice_def)

lemma block_predict_objects:
  assumes "size1 A = n" "size2 A = n" "size1 F = slice_len rs"
    and "slice_off rs + slice_len rs \<le> n"
    and "\<forall>o'\<in>set obs. slice_off o' + slice_len o' \<le> n \<and> disjoint rs o'"
    and "pairwise_disjoint obs" "ob \<in> set obs"
  shows "block (predict_objects F rs obs A) rs ob = mat_prod F (block A rs ob)"
  using assms
proof (induction obs arbitrary: A)
  case Nil
  then show ?case by simp
next
  case (Cons o1 obs)
  let ?A1 = "predict_cross F rs o1 A"
  have sz: "size1 ?A1 = n" "size2 ?A1 = n" using Cons.prems by simp_all
  have ob: "slice_off ob + slice_len ob \<le> n" "disjoint rs ob" using Cons.prems by auto
  show ?case
  proof (cases "ob = o1")
    case True
    have tail: "\<forall>o'\<in>set obs. disjoint ob o'"
      using Cons.prems True by (simp add: list_all_iff)
    have "block (predict_objects F rs obs ?A1) rs ob = block ?A1 rs ob"
      unfolding block_def
    proof (rule mk_mat_cong)
      fix i j assume ij: "i < slice_len rs" "j < slice_len ob"
      show "entry (predict_objects F rs obs ?A1) (slice_off rs + i) (slice_off ob + j)
          = entry ?A1 (slice_off rs + i) (slice_off ob + j)"
      proof (rule entry_predict_objects_other)
        show "slice_off rs + i < size1 ?A1" using ij Cons.prems sz by simp
        show "slice_off ob + j < size2 ?A1" using ij ob sz by simp
        show "size1 F = slice_len rs" by fact
        show "\<forall>o'\<in>set obs. \<not> (in_slice rs (slice_off rs + i) \<and> in_slice o' (slice_off ob + j)) \<and>
                \<not> (in_slice o' (slice_off rs + i) \<and> in_slice rs (slice_off ob + j))"
          using tail ob(2) ij
          by (meson disjoint_not_both in_slice_add)
      qed
    qed
    also have "\<dots> = mk_mat (slice_len rs) (slice_len ob) (entry (mat_prod F (block A rs ob)))"
      unfolding block_def [of ?A1]
    proof (rule mk_mat_cong)
      fix i j assume ij: "i < slice_len rs" "j < slice_len ob"
      show "entry ?A1 (slice_off rs + i) (slice_off ob + j) = entry (mat_prod F (block A rs ob)) i j"
        unfolding True [symmetric]
        using Cons.prems(1-4) ob ij by (intro entry_predict_cross_hit) simp_all
    qed
    also have "\<dots> = mat_prod F (block A rs ob)"
      using Cons.prems(3) by (simp add: mat_prod_def mk_mat_entry)
    finally show ?thesis by simp
  next
    case False
    then have mem: "ob \<in> set obs" using Cons.prems by simp
    have d1: "disjoint o1 ob" using Cons.prems mem by (simp add: list_all_iff)
    have "block (predict_objects F rs obs ?A1) rs ob = mat_prod F (block ?A1 rs ob)"
      using Cons.prems sz mem by (intro Cons.IH) simp_all
    also have "block ?A1 rs ob = block A rs ob"
      unfolding block_def
    proof (rule mk_mat_cong)
      fix i j assume ij: "i < slice_len rs" "j < slice_len ob"
      show "entry ?A1 (slice_off rs + i) (slice_off ob + j) = entry A (slice_off rs + i) (slice_off ob + j)"
      proof (rule entry_predict_cross_other)
        show "slice_off rs + i < size1 A" using ij Cons.prems by simp
        show "slice_off ob + j < size2 A" using ij ob Cons.prems by simp
        show "size1 F = slice_len rs" by fact
        show "\<not> (in_slice rs (slice_off rs + i) \<and> in_slice o1 (slice_off ob + j))"
          using d1 ij by (meson disjoint_not_both disjoint_sym in_slice_add)
        show "\<not> (in_slice o1 (slice_off rs + i) \<and> in_slice rs (slice_off ob + j))"
          using ob(2) ij by (meson disjoint_not_both disjoint_sym in_slice_add)
      qed
    qed
    finally show ?thesis by simp
  qed
qed


lemma entry_predict_own_other:
  assumes "i < size1 A" "j < size2 A" "\<not> (in_slice rs i \<and> in_slice rs j)" "size1 F = slice_len rs"
  shows "entry (predict_own F Qm rs A) i j = entry A i j"
  using assms by (auto simp add: predict_own_def entry_set_block in_slice_def)

lemma block_predict_own:
  assumes "size1 A = n" "size2 A = n" "size1 F = slice_len rs" "slice_off rs + slice_len rs \<le> n"
  shows "block (predict_own F Qm rs A) rs rs
       = mat_add (mat_prod (mat_prod F (block A rs rs)) (mat_trans F)) Qm"
proof -
  let ?B = "mat_add (mat_prod (mat_prod F (block A rs rs)) (mat_trans F)) Qm"
  have sz: "size1 ?B = slice_len rs" "size2 ?B = slice_len rs" using assms by simp_all
  let ?S = "set_block A (slice_off rs) (slice_off rs) ?B"
  have "block ?S rs rs
      = mk_mat (slice_len rs) (slice_len rs) (\<lambda>i j. entry ?S (slice_off rs + i) (slice_off rs + j))"
    by (fact block_def)
  also have "\<dots> = mk_mat (slice_len rs) (slice_len rs) (entry ?B)"
    using assms sz by (intro mk_mat_cong) (simp add: entry_set_block)
  also have "\<dots> = ?B"
    using assms(3) by (simp add: mat_add_def mk_mat_entry)
  finally show ?thesis by (simp add: predict_own_def)
qed

lemma layout_objects:
  assumes "map_layout_ok w rs" "ob \<in> set (objects w)"
  shows "slice_off ob + slice_len ob \<le> length (map_mean w)" "disjoint rs ob"
  using assms by (auto simp add: map_layout_ok_def list_all_iff)

lemma block_predict_rr:
  assumes "map_layout_ok w rs" "size1 F = slice_len rs"
  shows "block (predict F Qm rs (objects w) (map_covariance w)) rs rs
       = mat_add (mat_prod (mat_prod F (block (map_covariance w) rs rs)) (mat_trans F)) Qm"
proof -
  let ?n = "length (map_mean w)"
  let ?A = "map_covariance w"
  let ?A1 = "predict_own F Qm rs ?A"
  have sz: "size1 ?A = ?n" "size2 ?A = ?n" and rs: "slice_off rs + slice_len rs \<le> ?n"
    using assms(1) by (simp_all add: map_layout_ok_def)
  have "block (predict_objects F rs (objects w) ?A1) rs rs = block ?A1 rs rs"
    unfolding block_def
  proof (rule mk_mat_cong)
    fix i j assume ij: "i < slice_len rs" "j < slice_len rs"
    show "entry (predict_objects F rs (objects w) ?A1) (slice_off rs + i) (slice_off rs + j)
        = entry ?A1 (slice_off rs + i) (slice_off rs + j)"
    proof (rule entry_predict_objects_other)
      show "slice_off rs + i < size1 ?A1" "slice_off rs + j < size2 ?A1"
        using ij sz rs by simp_all
      show "size1 F = slice_len rs" by fact
      show "\<forall>ob\<in>set (objects w).
              \<not> (in_slice rs (slice_off rs + i) \<and> in_slice ob (slice_off rs + j)) \<and>
              \<not> (in_slice ob (slice_off rs + i) \<and> in_slice rs (slice_off rs + j))"
        using layout_objects(2) [OF assms(1)] ij
        by (meson disjoint_not_both in_slice_add)
    qed
  qed
  also have "\<dots> = mat_add (mat_prod (mat_prod F (block ?A rs rs)) (mat_trans F)) Qm"
    using sz rs assms(2) by (intro block_predict_own [where n = ?n]) simp_all
  finally show ?thesis by (simp add: predict_def)
qed

lemma block_predict_ro:
  assumes "map_layout_ok w rs" "size1 F = slice_len rs" "ob \<in> set (objects w)"
  shows "block (predict F Qm rs (objects w) (map_covariance w)) rs ob
       = mat_prod F (block (map_covariance w) rs ob)"
proof -
  let ?n = "length (map_mean w)"
  let ?A = "map_covariance w"
  let ?A1 = "predict_own F Qm rs ?A"
  have sz: "size1 ?A = ?n" "size2 ?A = ?n" and rs: "slice_off rs + slice_len rs \<le> ?n"
    and pd: "pairwise_disjoint (objects w)"
    using assms(1) by (simp_all add: map_layout_ok_def)
  note ob = layout_objects [OF assms(1) assms(3)]
  have "block (predict_objects F rs (objects w) ?A1) rs ob = mat_prod F (block ?A1 rs ob)"
  proof (rule block_predict_objects [where n = ?n])
    show "\<forall>o'\<in>set (objects w). slice_off o' + slice_len o' \<le> ?n \<and> disjoint rs o'"
      using layout_objects [OF assms(1)] by blast
  qed (use sz rs pd assms in simp_all)
  also have "block ?A1 rs ob = block ?A rs ob"
    unfolding block_def
  proof (rule mk_mat_cong)
    fix i j assume ij: "i < slice_len rs" "j < slice_len ob"
    show "entry ?A1 (slice_off rs + i) (slice_off ob + j) = entry ?A (slice_off rs + i) (slice_off ob + j)"
    proof (rule entry_predict_own_other)
      show "slice_off rs + i < size1 ?A" "slice_off ob + j < size2 ?A"
        using ij sz rs ob by simp_all
      show "size1 F = slice_len rs" by fact
      show "\<not> (in_slice rs (slice_off rs + i) \<and> in_slice rs (slice_off ob + j))"
        using ob(2) ij by (meson disjoint_not_both disjoint_sym in_slice_add)
    qed
  qed
  finally show ?thesis by (simp add: predict_def)
qed

lemma entry_predict_outside:
  assumes "map_layout_ok w rs" "size1 F = slice_len rs"
    and "i < length (map_mean w)" "j < length (map_mean w)" "\<not> in_slice rs i" "\<not> in_slice rs j"
  shows "entry (predict F Qm rs (objects w) (map_covariance w)) i j = entry (map_covariance w) i j"
proof -
  let ?A = "map_covariance w"
  let ?A1 = "predict_own F Qm rs ?A"
  have sz: "size1 ?A = length (map_mean w)" "size2 ?A = length (map_mean w)"
    using assms(1) by (simp_all add: map_layout_ok_def)
  have "entry (predict_objects F rs (objects w) ?A1) i j = entry ?A1 i j"
    using assms sz by (intro entry_predict_objects_other) simp_all
  also have "\<dots> = entry ?A i j"
    using assms sz by (intro entry_predict_own_other) simp_all
  finally show ?thesis by (simp add: predict_def)
qed

section \<open>The robot's step\<close>

lemma move_success:
  assumes "move mf w r = (None, w', r')"
  shows "state r' = state r" and "control r' = control r"
    and "objects w' = objects w" and "length (map_mean w') = length (map_mean w)"
    and "map_covariance w' = predict (XNEW_x r') (Q r') (state r) (objects w) (map_covariance w)"
  using assms
  by (auto simp add: move_def Let_def computeStatePerturbation_def write_slice_def
      split: prod.splits option.splits if_splits)

text \<open>
  C1. When \<^verbatim>\<open>move()\<close> returns on a map laid out as above and the motion model has
  left \<^verbatim>\<open>XNEW_x\<close> with as many rows as the robot has states, the robot's own block is
  \<open>XNEW_x * P_rr * XNEW_x\<^sup>T + Q\<close>, the cross block with every tracked object is
  \<open>XNEW_x * P_ro\<close>, and every entry of the covariance whose row and column both lie
  outside the robot's slice, so every block between two objects, is as before.
\<close>

theorem move_covariance_blocks:
  assumes "move mf w r = (None, w', r')"
    and "map_layout_ok w (state r)"
    and "size1 (XNEW_x r') = slice_len (state r)"
  shows "block (map_covariance w') (state r) (state r) =
           mat_add (mat_prod (mat_prod (XNEW_x r') (block (map_covariance w) (state r) (state r)))
                      (mat_trans (XNEW_x r'))) (Q r') \<and>
         (\<forall>ob\<in>set (objects w).
            block (map_covariance w') (state r) ob =
              mat_prod (XNEW_x r') (block (map_covariance w) (state r) ob)) \<and>
         (\<forall>i<length (map_mean w). \<forall>j<length (map_mean w).
            \<not> in_slice (state r) i \<and> \<not> in_slice (state r) j \<longrightarrow>
            entry (map_covariance w') i j = entry (map_covariance w) i j) \<and>
         (\<forall>o1\<in>set (objects w). \<forall>o2\<in>set (objects w).
            block (map_covariance w') o1 o2 = block (map_covariance w) o1 o2)"
proof -
  note cov = move_success(5) [OF assms(1)]
  have rr: "block (map_covariance w') (state r) (state r) =
      mat_add (mat_prod (mat_prod (XNEW_x r') (block (map_covariance w) (state r) (state r)))
        (mat_trans (XNEW_x r'))) (Q r')"
    unfolding cov using assms(2,3) by (rule block_predict_rr)
  have ro: "block (map_covariance w') (state r) ob =
      mat_prod (XNEW_x r') (block (map_covariance w) (state r) ob)"
    if "ob \<in> set (objects w)" for ob
    unfolding cov using assms(2,3) that by (rule block_predict_ro)
  have out: "entry (map_covariance w') i j = entry (map_covariance w) i j"
    if "i < length (map_mean w)" "j < length (map_mean w)"
      "\<not> in_slice (state r) i" "\<not> in_slice (state r) j" for i j
    unfolding cov using assms(2,3) that by (rule entry_predict_outside)
  have oo: "block (map_covariance w') o1 o2 = block (map_covariance w) o1 o2"
    if "o1 \<in> set (objects w)" "o2 \<in> set (objects w)" for o1 o2
    unfolding block_def
  proof (rule mk_mat_cong)
    fix i j assume ij: "i < slice_len o1" "j < slice_len o2"
    note l1 = layout_objects [OF assms(2) that(1)] and l2 = layout_objects [OF assms(2) that(2)]
    show "entry (map_covariance w') (slice_off o1 + i) (slice_off o2 + j)
        = entry (map_covariance w) (slice_off o1 + i) (slice_off o2 + j)"
    proof (rule out)
      show "slice_off o1 + i < length (map_mean w)" "slice_off o2 + j < length (map_mean w)"
        using ij l1(1) l2(1) by simp_all
      show "\<not> in_slice (state r) (slice_off o1 + i)"
        using l1(2) ij(1) by (meson disjoint_not_both disjoint_sym in_slice_add)
      show "\<not> in_slice (state r) (slice_off o2 + j)"
        using l2(2) ij(2) by (meson disjoint_not_both disjoint_sym in_slice_add)
    qed
  qed
  from rr ro out oo show ?thesis by blast
qed


lemma move_members [simp]:
  "control (snd (snd (move mf w r))) = control r"
  "state (snd (snd (move mf w r))) = state r"
  "constantPerturbation (snd (snd (move mf w r))) = constantPerturbation r"
  by (simp_all add: move_def Let_def computeStatePerturbation_def split: prod.splits option.splits)

lemma move_constant_Q: "constantPerturbation r \<Longrightarrow> Q (snd (snd (move mf w r))) = Q r"
  by (simp add: move_def Let_def split: prod.splits option.splits)

lemma move_failure: "fst (move mf w r) \<noteq> None \<Longrightarrow> fst (snd (move mf w r)) = w"
  by (simp add: move_def Let_def split: prod.splits option.splits)

lemma move_repeat_constant_Q:
  "constantPerturbation r \<Longrightarrow> Q (snd (move_repeat mf cs w r)) = Q r"
proof (induction cs arbitrary: w r)
  case Nil
  then show ?case by simp
next
  case (Cons c cs)
  obtain e w1 r1 where step: "move_Control mf c w r = (e, w1, r1)"
    by (cases "move_Control mf c w r") auto
  then have r1: "r1 = snd (snd (move mf w (r\<lparr>control := c\<rparr>)))"
    by (simp add: move_Control_def set_control_def)
  have "constantPerturbation r1" using Cons.prems by (simp add: r1)
  moreover have "Q r1 = Q r" using Cons.prems by (simp add: r1 move_constant_Q)
  ultimately show ?case using Cons.IH [of r1 w1] step by simp
qed

text \<open>
  C7. With \<^verbatim>\<open>constantPerturbation\<close> set, \<^verbatim>\<open>move()\<close> leaves \<^verbatim>\<open>Q\<close> as it is, and so
  does any sequence of steps, each with a control of its own. With the flag clear, a
  \<^verbatim>\<open>move()\<close> that returns has refreshed \<^verbatim>\<open>Q\<close> by \<^verbatim>\<open>computeStatePerturbation()\<close>
  from the Jacobian the motion model has just left.
\<close>

theorem constantPerturbation_bypass:
  "(constantPerturbation r \<longrightarrow>
      Q (snd (snd (move mf w r))) = Q r \<and> Q (snd (move_repeat mf cs w r)) = Q r) \<and>
   (\<not> constantPerturbation r \<and> move mf w r = (None, w', r') \<longrightarrow>
      r' = computeStatePerturbation (snd (move_func mf w r)) \<and>
      Q r' = mat_prod (mat_prod (XNEW_control r') (covariance (control r')))
               (mat_trans (XNEW_control r')))"
proof (intro conjI impI)
  assume "\<not> constantPerturbation r \<and> move mf w r = (None, w', r')"
  then show "r' = computeStatePerturbation (snd (move_func mf w r))"
    by (auto simp add: move_def move_func_def Let_def split: prod.splits option.splits)
  then show "Q r' = mat_prod (mat_prod (XNEW_control r') (covariance (control r')))
               (mat_trans (XNEW_control r'))"
    by (simp add: computeStatePerturbation_def)
qed (simp_all add: move_constant_Q move_repeat_constant_Q)

text \<open>
  C2. \<^verbatim>\<open>move(u)\<close> with a vector of the wrong size fails with \<open>SizeMismatch\<close> and
  leaves the map and the robot, its control included, as they were. With a vector of
  the control's size it is \<^verbatim>\<open>move()\<close> on the robot whose control mean is \<open>u\<close>, the
  covariance, \<^verbatim>\<open>dt\<close> and continuous-time members of the control being untouched.
\<close>

theorem move_u_size_check:
  "(length u \<noteq> Gaussian_size (control r) \<longrightarrow> move_u mf u w r = (Some SizeMismatch, w, r)) \<and>
   (length u = Gaussian_size (control r) \<longrightarrow>
      move_u mf u w r = move mf w (r\<lparr>control := (control r)\<lparr>mean := u\<rparr>\<rparr>) \<and>
      control (snd (snd (move_u mf u w r))) = (control r)\<lparr>mean := u\<rparr>)"
  by (simp add: move_u_def Gaussian_x_def)

text \<open>
  C9. \<^verbatim>\<open>move(c)\<close> is \<^verbatim>\<open>move()\<close> on the robot whose control is \<open>c\<close>: the mean, the
  covariance and \<^verbatim>\<open>dt\<close> of the former control are gone, the motion model is called with
  the \<^verbatim>\<open>dt\<close> of \<open>c\<close>, and after the step the robot's control is \<open>c\<close>. A control built
  from a Gaussian alone or from a size has \<^verbatim>\<open>dt = 1\<close>, so the robot's time step is 1 then.
\<close>

theorem move_Control_replaces_control:
  "move_Control mf c w r = move mf w (r\<lparr>control := c\<rparr>) \<and>
   control (snd (snd (move_Control mf c w r))) = c \<and>
   move_func_call mf w (set_control c r) =
     mf 0 1 (dt c) 0 \<lparr>vecs = [read_slice (state r) (map_mean w), mean c],
                       arg_XNEW_x = XNEW_x r, arg_XNEW_u = XNEW_control r\<rparr> \<and>
   dt (Control_of_Gaussian g) = 1 \<and> dt (Control_of_size n) = 1 \<and>
   dt (control (snd (snd (move_Control mf (Control_of_Gaussian g) w r)))) = 1 \<and>
   dt (control (snd (snd (move_Control mf (Control_of_size n) w r)))) = 1"
  by (simp add: move_Control_def set_control_def move_func_call_def
      Control_of_Gaussian_def Control_of_size_def)

text \<open>
  C8. Neither \<^verbatim>\<open>convert_P_from_continuous\<close> overload touches \<^verbatim>\<open>dt\<close> or the mean,
  whether it succeeds or not, nor do the two setters of the continuous-time members;
  the two \<^verbatim>\<open>convert_from_continuous\<close> overloads assign \<^verbatim>\<open>dt\<close> when they succeed. So the motion model of
  a step taken after \<^verbatim>\<open>convert_P_from_continuous(t)\<close> is called with the former \<^verbatim>\<open>dt\<close>.
\<close>

theorem convert_P_from_continuous_keeps_dt:
  "dt (snd (convert_P_from_continuous t c)) = dt c \<and>
   dt (snd (convert_P_from_continuous_mat M t c)) = dt c \<and>
   dt (snd (set_P_continuous M c)) = dt c \<and>
   dt (snd (set_x_continuous v c)) = dt c \<and>
   dt (snd (convert_from_continuous t c)) = (if fst (convert_from_continuous t c) = None then t else dt c) \<and>
   dt (snd (convert_from_continuous_Gaussian Ct t c)) =
     (if fst (convert_from_continuous_Gaussian Ct t c) = None then t else dt c) \<and>
   move_func_call mf w (r\<lparr>control := snd (convert_P_from_continuous t (control r))\<rparr>) =
     mf 0 1 (dt (control r)) 0
       \<lparr>vecs = [read_slice (state r) (map_mean w), mean (control r)],
        arg_XNEW_x = XNEW_x r, arg_XNEW_u = XNEW_control r\<rparr>"
  by (simp add: convert_P_from_continuous_eq convert_P_from_continuous_mat_eq
      convert_from_continuous_eq convert_from_continuous_Gaussian_eq
      set_P_continuous_eq set_x_continuous_eq move_func_call_def)

text \<open>
  C6, as the code has it. \<^verbatim>\<open>move_func()\<close> calls the motion model on local copies of
  the robot's current mean in the map and of the control mean, with the control's
  \<^verbatim>\<open>dt\<close>, and hands the same local vector over as \<^verbatim>\<open>_x\<close> and as \<^verbatim>\<open>_xnew\<close>; it
  stores the two Jacobians as the motion model leaves them, with no check of their sizes,
  and changes no other member. \<^verbatim>\<open>move()\<close> fails exactly when that call fails, and then
  the map is as before.
\<close>

theorem move_func_evaluation:
  "move_func_call mf w r =
     mf 0 1 (dt (control r)) 0
       \<lparr>vecs = [read_slice (state r) (map_mean w), mean (control r)],
        arg_XNEW_x = XNEW_x r, arg_XNEW_u = XNEW_control r\<rparr> \<and>
   move_func mf w r =
     (fst (move_func_call mf w r),
      r\<lparr>XNEW_x := arg_XNEW_x (snd (move_func_call mf w r)),
        XNEW_control := arg_XNEW_u (snd (move_func_call mf w r))\<rparr>) \<and>
   fst (move mf w r) = fst (move_func_call mf w r) \<and>
   XNEW_x (snd (snd (move mf w r))) = arg_XNEW_x (snd (move_func_call mf w r)) \<and>
   XNEW_control (snd (snd (move mf w r))) = arg_XNEW_u (snd (move_func_call mf w r)) \<and>
   (fst (move mf w r) \<noteq> None \<longrightarrow> fst (snd (move mf w r)) = w)"
  by (auto simp add: move_func_call_def move_func_def move_def Let_def computeStatePerturbation_def
      split: prod.splits option.splits)


section \<open>The state perturbation\<close>

lemma entry_JPJt:
  fixes J P :: "'a::comm_semiring_0 mat"
  assumes "size1 P = size2 J" "size2 P = size2 J" "i < size1 J" "j < size1 J"
  shows "entry (mat_prod (mat_prod J P) (mat_trans J)) i j
       = (\<Sum>k<size2 J. \<Sum>l<size2 J. entry J i k * entry P k l * entry J j l)"
proof -
  have "entry (mat_prod (mat_prod J P) (mat_trans J)) i j
      = (\<Sum>l<size2 J. (\<Sum>k<size2 J. entry J i k * entry P k l) * entry J j l)"
    using assms
    by (simp add: mat_prod_def mat_trans_def interv_sum_list_conv_sum_set_nat atLeast0LessThan)
  also have "\<dots> = (\<Sum>l<size2 J. \<Sum>k<size2 J. entry J i k * entry P k l * entry J j l)"
    by (simp add: sum_distrib_right)
  also have "\<dots> = (\<Sum>k<size2 J. \<Sum>l<size2 J. entry J i k * entry P k l * entry J j l)"
    by (rule sum.swap)
  finally show ?thesis .
qed

lemma JPJt_swap:
  fixes J P :: "'a::comm_semiring_0 mat"
  assumes "symmetric P" "size1 P = size2 J"
  shows "(\<Sum>k<size2 J. \<Sum>l<size2 J. entry J i k * entry P k l * entry J j l)
       = (\<Sum>k<size2 J. \<Sum>l<size2 J. entry J j k * entry P k l * entry J i l)"
proof -
  have "(\<Sum>k<size2 J. \<Sum>l<size2 J. entry J i k * entry P k l * entry J j l)
      = (\<Sum>k<size2 J. \<Sum>l<size2 J. entry J j l * entry P l k * entry J i k)"
    using assms by (intro sum.cong refl) (simp add: symmetricD [of P] mult_ac)
  also have "\<dots> = (\<Sum>l<size2 J. \<Sum>k<size2 J. entry J j l * entry P l k * entry J i k)"
    by (rule sum.swap)
  finally show ?thesis .
qed

lemma symmetric_JPJt:
  fixes J P :: "'a::comm_semiring_0 mat"
  assumes "symmetric P" "size1 P = size2 J"
  shows "symmetric (mat_prod (mat_prod J P) (mat_trans J))"
proof -
  have sq: "size2 P = size2 J" using assms by (simp add: symmetric_def)
  have "entry (mat_prod (mat_prod J P) (mat_trans J)) i j
      = entry (mat_prod (mat_prod J P) (mat_trans J)) j i"
    if "i < size1 J" "j < size1 J" for i j
    using that assms sq JPJt_swap [OF assms, of i j] by (simp add: entry_JPJt)
  then show ?thesis
    by (simp add: symmetric_def list_all_iff)
qed

text \<open>
  C4. \<^verbatim>\<open>computeStatePerturbation()\<close> sets \<^verbatim>\<open>Q\<close> to
  \<open>XNEW_control * control.covariance * XNEW_control\<^sup>T\<close> and nothing else. For a Jacobian
  of size n x m and a symmetric control covariance of size m x m, \<^verbatim>\<open>Q\<close> is n x n,
  its entry \<open>(i, j)\<close> is the double sum of \<open>J i k * P k l * J j l\<close>, and it is symmetric.
\<close>

theorem computeStatePerturbation_formula:
  fixes r :: "'a::comm_semiring_0 RobotAbstract"
  shows "computeStatePerturbation r =
           r\<lparr>Q := mat_prod (mat_prod (XNEW_control r) (covariance (control r)))
                    (mat_trans (XNEW_control r))\<rparr> \<and>
         size1 (Q (computeStatePerturbation r)) = size1 (XNEW_control r) \<and>
         size2 (Q (computeStatePerturbation r)) = size1 (XNEW_control r) \<and>
         (symmetric (covariance (control r)) \<and>
          size1 (covariance (control r)) = size2 (XNEW_control r) \<longrightarrow>
            symmetric (Q (computeStatePerturbation r)) \<and>
            (\<forall>i<size1 (XNEW_control r). \<forall>j<size1 (XNEW_control r).
               entry (Q (computeStatePerturbation r)) i j =
                 (\<Sum>k<size2 (XNEW_control r). \<Sum>l<size2 (XNEW_control r).
                    entry (XNEW_control r) i k * entry (covariance (control r)) k l *
                    entry (XNEW_control r) j l)))"
proof (intro conjI impI allI)
  assume h: "symmetric (covariance (control r)) \<and>
    size1 (covariance (control r)) = size2 (XNEW_control r)"
  then show "symmetric (Q (computeStatePerturbation r))"
    by (simp add: computeStatePerturbation_def symmetric_JPJt)
  from h have "size2 (covariance (control r)) = size2 (XNEW_control r)"
    by (simp add: symmetric_def)
  with h show "i < size1 (XNEW_control r) \<Longrightarrow> j < size1 (XNEW_control r) \<Longrightarrow>
      entry (Q (computeStatePerturbation r)) i j =
        (\<Sum>k<size2 (XNEW_control r). \<Sum>l<size2 (XNEW_control r).
           entry (XNEW_control r) i k * entry (covariance (control r)) k l *
           entry (XNEW_control r) j l)" for i j
    by (simp add: computeStatePerturbation_def entry_JPJt)
qed (simp_all add: computeStatePerturbation_def)

theorem computeStatePerturbation_formula_witness:
  "symmetric (covariance (control (tracking_robot\<lparr>XNEW_control := \<lparr>size1 = 2, size2 = 1, data = [[3], [1]]\<rparr>\<rparr>))) \<and>
   size1 (covariance (control (tracking_robot\<lparr>XNEW_control := \<lparr>size1 = 2, size2 = 1, data = [[3], [1]]\<rparr>\<rparr>))) = 1 \<and>
   Q (computeStatePerturbation (tracking_robot\<lparr>XNEW_control := \<lparr>size1 = 2, size2 = 1, data = [[3], [1]]\<rparr>\<rparr>)) =
     \<lparr>size1 = 2, size2 = 2, data = [[18/100, 6/100], [6/100, 2/100]]\<rparr> \<and>
   symmetric (Q (computeStatePerturbation (tracking_robot\<lparr>XNEW_control := \<lparr>size1 = 2, size2 = 1, data = [[3], [1]]\<rparr>\<rparr>)))"
proof -
  let ?r = "tracking_robot\<lparr>XNEW_control := \<lparr>size1 = 2, size2 = 1, data = [[3], [1]]\<rparr>\<rparr>"
  have sym: "symmetric (covariance (control ?r))" by code_simp
  have sz: "size1 (covariance (control ?r)) = size2 (XNEW_control ?r)" by code_simp
  have sz1: "size1 (covariance (control ?r)) = 1" by code_simp
  have val: "Q (computeStatePerturbation ?r) =
      \<lparr>size1 = 2, size2 = 2, data = [[18/100, 6/100], [6/100, 2/100]]\<rparr>" by code_simp
  from computeStatePerturbation_formula [of ?r] sym sz
  have "symmetric (Q (computeStatePerturbation ?r))" by blast
  with sym sz1 val show ?thesis by (intro conjI)
qed


section \<open>The theorems at concrete robots\<close>

theorem move_covariance_blocks_witness:
  "fst (move velocity_move_func tracking_map tracking_robot) = None \<and>
   map_layout_ok tracking_map (state tracking_robot) \<and>
   XNEW_x (snd (snd (move velocity_move_func tracking_map tracking_robot))) =
     \<lparr>size1 = 2, size2 = 2, data = [[1, 1], [0, 1]]\<rparr> \<and>
   block (map_covariance (fst (snd (move velocity_move_func tracking_map tracking_robot))))
     \<lparr>slice_off = 0, slice_len = 2\<rparr> \<lparr>slice_off = 0, slice_len = 2\<rparr> =
     \<lparr>size1 = 2, size2 = 2, data = [[5/100, 4/100], [4/100, 6/100]]\<rparr> \<and>
   block (map_covariance (fst (snd (move velocity_move_func tracking_map tracking_robot))))
     \<lparr>slice_off = 0, slice_len = 2\<rparr> \<lparr>slice_off = 2, slice_len = 1\<rparr> =
     \<lparr>size1 = 2, size2 = 1, data = [[7/1000], [2/1000]]\<rparr> \<and>
   block (map_covariance (fst (snd (move velocity_move_func tracking_map tracking_robot))))
     \<lparr>slice_off = 2, slice_len = 1\<rparr> \<lparr>slice_off = 2, slice_len = 1\<rparr> =
     \<lparr>size1 = 1, size2 = 1, data = [[9/100]]\<rparr>"
proof -
  let ?m = "move velocity_move_func tracking_map tracking_robot"
  let ?rs = "\<lparr>slice_off = 0, slice_len = 2\<rparr>"
  let ?lm = "\<lparr>slice_off = 2, slice_len = 1\<rparr>"
  have ok: "fst ?m = None" by code_simp
  then have mv: "?m = (None, fst (snd ?m), snd (snd ?m))" by (simp add: prod_eq_iff)
  have lay: "map_layout_ok tracking_map (state tracking_robot)" by code_simp
  have F: "XNEW_x (snd (snd ?m)) = \<lparr>size1 = 2, size2 = 2, data = [[1, 1], [0, 1]]\<rparr>" by code_simp
  have sz: "size1 (XNEW_x (snd (snd ?m))) = slice_len (state tracking_robot)" by code_simp
  have rs: "state tracking_robot = ?rs" and lm: "?lm \<in> set (objects tracking_map)"
    by (simp_all add: tracking_robot_def tracking_map_def)
  note th = move_covariance_blocks [OF mv lay sz, unfolded rs]
  have v1: "mat_add (mat_prod (mat_prod (XNEW_x (snd (snd ?m))) (block (map_covariance tracking_map) ?rs ?rs))
              (mat_trans (XNEW_x (snd (snd ?m))))) (Q (snd (snd ?m)))
          = \<lparr>size1 = 2, size2 = 2, data = [[5/100, 4/100], [4/100, 6/100]]\<rparr>" by code_simp
  have v2: "mat_prod (XNEW_x (snd (snd ?m))) (block (map_covariance tracking_map) ?rs ?lm)
          = \<lparr>size1 = 2, size2 = 1, data = [[7/1000], [2/1000]]\<rparr>" by code_simp
  have v3: "block (map_covariance tracking_map) ?lm ?lm = \<lparr>size1 = 1, size2 = 1, data = [[9/100]]\<rparr>"
    by code_simp
  note rr = th [THEN conjunct1, unfolded v1]
    and ro = th [THEN conjunct2, THEN conjunct1, rule_format, OF lm, unfolded v2]
    and oo = th [THEN conjunct2, THEN conjunct2, THEN conjunct2, rule_format, OF lm lm, unfolded v3]
  from ok lay F rr ro oo show ?thesis by (intro conjI)
qed

theorem move_u_size_check_witness:
  "Gaussian_size (control scenario_robot) = 1 \<and>
   move_u odometry_move_func [1, 2] scenario_map scenario_robot =
     (Some SizeMismatch, scenario_map, scenario_robot) \<and>
   move_u odometry_move_func [3] scenario_map scenario_robot =
     move odometry_move_func scenario_map (scenario_robot\<lparr>control := scenario_control\<lparr>mean := [3]\<rparr>\<rparr>) \<and>
   control (snd (snd (move_u odometry_move_func [3] scenario_map scenario_robot))) =
     scenario_control\<lparr>mean := [3]\<rparr>"
proof -
  have sz: "Gaussian_size (control scenario_robot) = 1"
    and c: "control scenario_robot = scenario_control"
    by (simp_all add: scenario_robot_def scenario_control_def Gaussian_size_def)
  have wrong: "length [1, 2 :: real] \<noteq> Gaussian_size (control scenario_robot)"
    and right: "length [3 :: real] = Gaussian_size (control scenario_robot)"
    by (simp_all add: sz)
  note bad = move_u_size_check [of "[1, 2]" scenario_robot odometry_move_func scenario_map,
      THEN conjunct1, rule_format, OF wrong]
  note good = move_u_size_check [of "[3]" scenario_robot odometry_move_func scenario_map,
      THEN conjunct2, rule_format, OF right, unfolded c]
  from sz bad good show ?thesis by (intro conjI) simp_all
qed

theorem constantPerturbation_bypass_witness:
  "Q (snd (snd (move odometry_move_func scenario_map
        (scenario_robot\<lparr>constantPerturbation := True, Q := \<lparr>size1 = 1, size2 = 1, data = [[7]]\<rparr>\<rparr>)))) =
     \<lparr>size1 = 1, size2 = 1, data = [[7]]\<rparr> \<and>
   Q (snd (move_repeat odometry_move_func
        [scenario_control, scenario_control\<lparr>covariance := \<lparr>size1 = 1, size2 = 1, data = [[5]]\<rparr>, dt := 2\<rparr>]
        scenario_map
        (scenario_robot\<lparr>constantPerturbation := True, Q := \<lparr>size1 = 1, size2 = 1, data = [[7]]\<rparr>\<rparr>))) =
     \<lparr>size1 = 1, size2 = 1, data = [[7]]\<rparr> \<and>
   fst (move odometry_move_func scenario_map scenario_robot) = None \<and>
   Q (snd (snd (move odometry_move_func scenario_map scenario_robot))) =
     \<lparr>size1 = 1, size2 = 1, data = [[2/100]]\<rparr>"
proof -
  let ?rc = "scenario_robot\<lparr>constantPerturbation := True, Q := \<lparr>size1 = 1, size2 = 1, data = [[7]]\<rparr>\<rparr>"
  let ?cs = "[scenario_control, scenario_control\<lparr>covariance := \<lparr>size1 = 1, size2 = 1, data = [[5]]\<rparr>, dt := 2\<rparr>]"
  let ?m = "move odometry_move_func scenario_map scenario_robot"
  have flag: "constantPerturbation ?rc" "\<not> constantPerturbation scenario_robot"
    and q: "Q ?rc = \<lparr>size1 = 1, size2 = 1, data = [[7]]\<rparr>"
    by (simp_all add: scenario_robot_def)
  have ok: "fst ?m = None" by code_simp
  then have mv: "?m = (None, fst (snd ?m), snd (snd ?m))" by (simp add: prod_eq_iff)
  have v: "mat_prod (mat_prod (XNEW_control (snd (snd ?m))) (covariance (control (snd (snd ?m)))))
             (mat_trans (XNEW_control (snd (snd ?m)))) = \<lparr>size1 = 1, size2 = 1, data = [[2/100]]\<rparr>"
    by code_simp
  from constantPerturbation_bypass [of ?rc odometry_move_func scenario_map ?cs] flag(1)
  have "Q (snd (snd (move odometry_move_func scenario_map ?rc))) = Q ?rc"
    and "Q (snd (move_repeat odometry_move_func ?cs scenario_map ?rc)) = Q ?rc"
    by blast+
  moreover
  from constantPerturbation_bypass [of scenario_robot odometry_move_func scenario_map _
      "fst (snd ?m)" "snd (snd ?m)"] flag(2) mv
  have "Q (snd (snd ?m)) = \<lparr>size1 = 1, size2 = 1, data = [[2/100]]\<rparr>"
    unfolding v [symmetric] by blast
  ultimately show ?thesis using ok unfolding q by (intro conjI)
qed

theorem move_func_evaluation_witness:
  "fst (move failing_move_func scenario_map scenario_robot) = Some MotionModelFailure \<and>
   fst (snd (move failing_move_func scenario_map scenario_robot)) = scenario_map \<and>
   fst (move odometry_move_func scenario_map scenario_robot) = None \<and>
   XNEW_control (snd (snd (move odometry_move_func scenario_map scenario_robot))) =
     \<lparr>size1 = 1, size2 = 1, data = [[1]]\<rparr>"
proof -
  have f: "fst (move failing_move_func scenario_map scenario_robot) = Some MotionModelFailure"
    by (simp add: move_def move_func_call_def failing_move_func_def)
  have j: "arg_XNEW_u (snd (move_func_call odometry_move_func scenario_map scenario_robot)) =
      \<lparr>size1 = 1, size2 = 1, data = [[1]]\<rparr>"
    and ok: "fst (move_func_call odometry_move_func scenario_map scenario_robot) = None"
    by code_simp+
  show ?thesis
    using move_func_evaluation [of failing_move_func scenario_map scenario_robot]
      move_func_evaluation [of odometry_move_func scenario_map scenario_robot] f j ok
    by simp
qed

text \<open>
  C6, as the spec states it, fails on the position/velocity model: the robot is at
  \<open>[0, 1]\<close>, the control is \<open>[1]\<close> and \<^verbatim>\<open>dt\<close> is 1. Evaluated at this pose with an
  output vector of its own the model gives \<open>[1, 2]\<close>; called by \<^verbatim>\<open>move_func()\<close>, which
  hands the input vector over as the output vector too, it gives \<open>[2, 2]\<close>.
\<close>

theorem move_func_aliasing_counterexample:
  "read_slice (state tracking_robot) (map_mean tracking_map) = [0, 1] \<and>
   mean (control tracking_robot) = [1] \<and> dt (control tracking_robot) = 1 \<and>
   vecs (snd (velocity_move_func 0 1 1 2
           \<lparr>vecs = [[0, 1], [1], [0, 0]],
            arg_XNEW_x = XNEW_x tracking_robot, arg_XNEW_u = XNEW_control tracking_robot\<rparr>)) ! 2 = [1, 2] \<and>
   vecs (snd (move_func_call velocity_move_func tracking_map tracking_robot)) ! 0 = [2, 2]"
  by code_simp


end
